theory Spec2Isabelle
  imports Complex_Main "HOL-Library.Log_Nat"
begin

section \<open>Identifiers\<close>

text \<open>
  The services use the document store's native identifier through three driver calls:
  \<^verbatim>\<open>ObjectId.isValid(s)\<close>, \<^verbatim>\<open>new ObjectId(s)\<close> and \<^verbatim>\<open>oid.toHexString()\<close>.
  For a string the driver's format check accepts exactly the strings of 24 hexadecimal
  digits (either case), the constructor throws on every other string, and the hexadecimal
  rendering is lower-case. An identifier value is therefore represented by its canonical
  rendering: 24 lower-case hexadecimal digits.
\<close>

type_synonym ObjectId = string

datatype error =
    InvalidObjectId            \<comment> \<open>thrown by \<^verbatim>\<open>new ObjectId(s)\<close> on a malformed string\<close>
  | DuplicateKey               \<comment> \<open>thrown by \<^verbatim>\<open>insertOne\<close> when the \<^verbatim>\<open>_id\<close> is already stored\<close>
  | InvalidBookID              \<comment> \<open>\<^verbatim>\<open>Error('Invalid Book ID')\<close>\<close>
  | FailedToUpdateCartItem     \<comment> \<open>\<^verbatim>\<open>Error('Failed to update cart item')\<close>\<close>
  | FailedToCreateCartItem     \<comment> \<open>\<^verbatim>\<open>Error('Failed to create and retrieve cart item')\<close>\<close>
  | FailedToCreateBook         \<comment> \<open>\<^verbatim>\<open>Error('Failed to create and retrieve the new book.')\<close>\<close>
  | FailedToCreateReview       \<comment> \<open>\<^verbatim>\<open>Error('Failed to create and retrieve the new review.')\<close>\<close>

definition isHexDigit :: "char \<Rightarrow> bool" where
  "isHexDigit c = (c \<in> set ''0123456789abcdefABCDEF'')"

definition isLowerHexDigit :: "char \<Rightarrow> bool" where
  "isLowerHexDigit c = (c \<in> set ''0123456789abcdef'')"

definition toLowerHex :: "char \<Rightarrow> char" where
  "toLowerHex c =
     (if c = CHR ''A'' then CHR ''a'' else if c = CHR ''B'' then CHR ''b''
      else if c = CHR ''C'' then CHR ''c'' else if c = CHR ''D'' then CHR ''d''
      else if c = CHR ''E'' then CHR ''e'' else if c = CHR ''F'' then CHR ''f''
      else c)"

definition isValid :: "string \<Rightarrow> bool" where
  "isValid s = (length s = 24 \<and> list_all isHexDigit s)"

definition new_ObjectId :: "string \<Rightarrow> error + ObjectId" where
  "new_ObjectId s = (if isValid s then Inr (map toLowerHex s) else Inl InvalidObjectId)"

definition toHexString :: "ObjectId \<Rightarrow> string" where
  "toHexString oid = oid"

definition wfObjectId :: "ObjectId \<Rightarrow> bool" where
  "wfObjectId oid = (length oid = 24 \<and> list_all isLowerHexDigit oid)"

section \<open>Numbers\<close>

text \<open>
  A number of the source is an IEEE 754 double: a finite value, an infinity or NaN. A
  finite double is represented by its exact rational value (the two zeros are one value;
  nothing the services do tells them apart). \<open>roundToDouble\<close> is the rounding every
  arithmetic operation ends with: to the nearest double, ties to the even significand,
  with 53 significant bits, the least exponent \<open>-1074\<close>, and overflow to an infinity from
  \<open>2 ^ 1024\<close> on. \<open>ilog2 x\<close> is the exponent of a positive \<open>x\<close>, the integer \<open>e\<close> with
  \<open>2 ^ e \<le> x < 2 ^ (e + 1)\<close>.
\<close>

datatype number = Finite rat | PosInfinity | NegInfinity | NaN

definition pow2 :: "int \<Rightarrow> rat" where
  "pow2 k = (if 0 \<le> k then 2 ^ nat k else 1 / 2 ^ nat (- k))"

definition ilog2 :: "rat \<Rightarrow> int" where
  "ilog2 x = (if 1 \<le> x then bitlen \<lfloor>x\<rfloor> - 1 else - bitlen (\<lceil>1 / x\<rceil> - 1))"

definition roundHalfEven :: "rat \<Rightarrow> int" where
  "roundHalfEven x =
     (let f = \<lfloor>x\<rfloor>; d = x - of_int f
      in if d < 1 / 2 then f else if 1 / 2 < d then f + 1 else if even f then f else f + 1)"

definition roundToDouble :: "rat \<Rightarrow> number" where
  "roundToDouble x =
     (if x = 0 then Finite 0
      else
        let e = max (ilog2 \<bar>x\<bar>) (- 1022);
            ulp = pow2 (e - 52);
            r = of_int (roundHalfEven (\<bar>x\<bar> / ulp)) * ulp
        in if pow2 1024 \<le> r then (if 0 < x then PosInfinity else NegInfinity)
           else Finite (sgn x * r))"

text \<open>The operators \<^verbatim>\<open>+\<close> and \<^verbatim>\<open><=\<close> on numbers.\<close>

fun jsAdd :: "number \<Rightarrow> number \<Rightarrow> number" where
  "jsAdd (Finite a) (Finite b) = roundToDouble (a + b)"
| "jsAdd NaN _ = NaN"
| "jsAdd _ NaN = NaN"
| "jsAdd PosInfinity NegInfinity = NaN"
| "jsAdd NegInfinity PosInfinity = NaN"
| "jsAdd PosInfinity _ = PosInfinity"
| "jsAdd _ PosInfinity = PosInfinity"
| "jsAdd NegInfinity _ = NegInfinity"
| "jsAdd _ NegInfinity = NegInfinity"

fun jsLe :: "number \<Rightarrow> number \<Rightarrow> bool" where
  "jsLe NaN _ = False"
| "jsLe _ NaN = False"
| "jsLe NegInfinity _ = True"
| "jsLe _ PosInfinity = True"
| "jsLe (Finite a) (Finite b) = (a \<le> b)"
| "jsLe _ _ = False"

section \<open>Data model\<close>

text \<open>
  Every numeric field is a number of the source, stored and read back unchanged. A
  timestamp is the ISO string the source stores.
\<close>

record CartItemDocument =
  c_id :: ObjectId
  c_bookId :: ObjectId
  c_quantity :: number
  c_addedAt :: string

record CartItem =
  ci_id :: string
  ci_bookId :: string
  ci_quantity :: number
  ci_addedAt :: string

record ReviewDocument =
  r_id :: ObjectId
  r_bookId :: ObjectId
  r_author :: string
  r_rating :: number
  r_title :: string
  r_comment :: string
  r_timestamp :: string
  r_verified :: bool

record Review =
  rv_id :: string
  rv_bookId :: string
  rv_author :: string
  rv_rating :: number
  rv_title :: string
  rv_comment :: string
  rv_timestamp :: string
  rv_verified :: bool

text \<open>
  The argument of \<^verbatim>\<open>createReview\<close>, \<^verbatim>\<open>Omit<Review, 'id'>\<close>. The route builds it from
  a request body in which \<^verbatim>\<open>timestamp\<close> and \<^verbatim>\<open>verified\<close> are not required, so both
  may be absent.
\<close>

record ReviewData =
  rd_bookId :: string
  rd_author :: string
  rd_rating :: number
  rd_title :: string
  rd_comment :: string
  rd_timestamp :: "string option"
  rd_verified :: "bool option"

text \<open>The argument of \<^verbatim>\<open>updateReview\<close>, \<^verbatim>\<open>Partial<Omit<Review, 'id'>>\<close>.\<close>

record ReviewUpdates =
  ru_bookId :: "string option"
  ru_author :: "string option"
  ru_rating :: "number option"
  ru_title :: "string option"
  ru_comment :: "string option"
  ru_timestamp :: "string option"
  ru_verified :: "bool option"

text \<open>
  Modelled from the spec: the \<^verbatim>\<open>Book\<close> type of \<^verbatim>\<open>src/app/types\<close>, which is not among
  the sources. Its attributes are the sixteen required fields the books route lists, with
  the types the data model gives them. \<^verbatim>\<open>BookData\<close> is \<^verbatim>\<open>Omit<Book, 'id'>\<close>.
\<close>

record BookData =
  title :: string
  author :: string
  description :: string
  price :: number
  image :: string
  isbn :: string
  genre :: "string list"
  tags :: "string list"
  datePublished :: string
  pages :: number
  language :: string
  publisher :: string
  rating :: number
  reviewCount :: number
  inStock :: bool
  featured :: bool

text \<open>
  A stored book is \<^verbatim>\<open>{ _id, ...rest }\<close> and a returned book \<^verbatim>\<open>{ id, ...rest }\<close>: the
  identifier and the remaining attributes, which \<^verbatim>\<open>mapMongoId\<close> separates.
\<close>

record BookDocument =
  b_id :: ObjectId
  b_rest :: BookData

record Book =
  bk_id :: string
  bk_rest :: BookData

text \<open>The argument of \<^verbatim>\<open>updateBook\<close>, \<^verbatim>\<open>Partial<Omit<Book, 'id'>>\<close>.\<close>

record BookUpdates =
  bu_title :: "string option"
  bu_author :: "string option"
  bu_description :: "string option"
  bu_price :: "number option"
  bu_image :: "string option"
  bu_isbn :: "string option"
  bu_genre :: "string list option"
  bu_tags :: "string list option"
  bu_datePublished :: "string option"
  bu_pages :: "number option"
  bu_language :: "string option"
  bu_publisher :: "string option"
  bu_rating :: "number option"
  bu_reviewCount :: "number option"
  bu_inStock :: "bool option"
  bu_featured :: "bool option"

text \<open>
  The database: the three collections in their natural (insertion) order, and a count of
  the calls made to the storage layer so far (\<^verbatim>\<open>connectToDatabase\<close> and every
  collection method), which records whether an operation touched storage. The store
  answers every call: an unreachable store is not part of the model, and calls are run one
  after the other.
\<close>

record db =
  books :: "BookDocument list"
  reviews :: "ReviewDocument list"
  cart :: "CartItemDocument list"
  storageCalls :: nat

section \<open>The collection methods of the driver\<close>

definition findOne :: "('d \<Rightarrow> bool) \<Rightarrow> 'd list \<Rightarrow> 'd option" where
  "findOne P xs = List.find P xs"

fun updateFirst :: "('d \<Rightarrow> bool) \<Rightarrow> ('d \<Rightarrow> 'd) \<Rightarrow> 'd list \<Rightarrow> 'd list" where
  "updateFirst P f [] = []"
| "updateFirst P f (x # xs) = (if P x then f x # xs else x # updateFirst P f xs)"

fun removeFirst :: "('d \<Rightarrow> bool) \<Rightarrow> 'd list \<Rightarrow> 'd list" where
  "removeFirst P [] = []"
| "removeFirst P (x # xs) = (if P x then xs else x # removeFirst P xs)"

text \<open>\<^verbatim>\<open>findOneAndUpdate(filter, { $set }, { returnDocument: 'after' })\<close>: the first
  matching document is changed and returned as changed; no match returns null.\<close>

definition findOneAndUpdate ::
  "('d \<Rightarrow> bool) \<Rightarrow> ('d \<Rightarrow> 'd) \<Rightarrow> 'd list \<Rightarrow> 'd option \<times> 'd list" where
  "findOneAndUpdate P f xs = (map_option f (findOne P xs), updateFirst P f xs)"

text \<open>\<^verbatim>\<open>deleteOne(filter)\<close>: the deleted count and the remaining documents.\<close>

definition deleteOne :: "('d \<Rightarrow> bool) \<Rightarrow> 'd list \<Rightarrow> nat \<times> 'd list" where
  "deleteOne P xs = ((if findOne P xs = None then 0 else 1), removeFirst P xs)"

text \<open>\<^verbatim>\<open>deleteMany({})\<close>.\<close>

definition deleteMany :: "'d list \<Rightarrow> nat \<times> 'd list" where
  "deleteMany xs = (length xs, [])"

text \<open>\<^verbatim>\<open>insertOne(doc)\<close>: the driver gives the document its \<^verbatim>\<open>_id\<close> (here already
  in the document); the store refuses an \<^verbatim>\<open>_id\<close> it already holds.\<close>

definition insertOne ::
  "('d \<Rightarrow> ObjectId) \<Rightarrow> 'd \<Rightarrow> 'd list \<Rightarrow> error + ObjectId \<times> 'd list" where
  "insertOne idOf doc xs =
     (if idOf doc \<in> set (map idOf xs) then Inl DuplicateKey
      else Inr (idOf doc, xs @ [doc]))"

definition connectToDatabase :: "db \<Rightarrow> db" where
  "connectToDatabase d = d\<lparr>storageCalls := storageCalls d + 1\<rparr>"

definition storageCall :: "db \<Rightarrow> db" where
  "storageCall d = d\<lparr>storageCalls := storageCalls d + 1\<rparr>"

section \<open>The cart service\<close>

definition getCartCollection :: "db \<Rightarrow> db" where
  "getCartCollection d = connectToDatabase d"

definition mapMongoId_cart :: "CartItemDocument \<Rightarrow> CartItem" where
  "mapMongoId_cart doc =
     \<lparr>ci_id = toHexString (c_id doc), ci_bookId = toHexString (c_bookId doc),
      ci_quantity = c_quantity doc, ci_addedAt = c_addedAt doc\<rparr>"

definition getCart :: "db \<Rightarrow> CartItem list \<times> db" where
  "getCart d =
     (let d1 = getCartCollection d;
          documents = cart d1;
          d2 = storageCall d1
      in (map mapMongoId_cart documents, d2))"

record itemData =
  bookId :: string
  quantity :: number

text \<open>
  \<^verbatim>\<open>addCartItem\<close>. \<open>newId\<close> is the identifier the driver generates for an inserted
  document and \<open>now\<close> the value of \<^verbatim>\<open>new Date().toISOString()\<close>. A throw is the \<open>Inl\<close>
  result, paired with the database as the throw leaves it.
\<close>

definition addCartItem ::
  "ObjectId \<Rightarrow> string \<Rightarrow> itemData \<Rightarrow> db \<Rightarrow> (error + CartItem) \<times> db" where
  "addCartItem newId now item d =
     (if \<not> isValid (bookId item) then (Inl InvalidBookID, d)
      else
        let d1 = getCartCollection d in
        case new_ObjectId (bookId item) of
          Inl e \<Rightarrow> (Inl e, d1)
        | Inr bookObjectId \<Rightarrow>
            let existingItem = findOne (\<lambda>c. c_bookId c = bookObjectId) (cart d1);
                d2 = storageCall d1
            in case existingItem of
                 Some ex \<Rightarrow>
                   (let newQuantity = jsAdd (c_quantity ex) (quantity item);
                        (result, cart') =
                           findOneAndUpdate (\<lambda>c. c_id c = c_id ex)
                             (\<lambda>c. c\<lparr>c_quantity := newQuantity\<rparr>) (cart d2);
                        d3 = storageCall (d2\<lparr>cart := cart'\<rparr>)
                    in (case result of
                          None \<Rightarrow> (Inl FailedToUpdateCartItem, d3)
                        | Some r \<Rightarrow> (Inr (mapMongoId_cart r), d3)))
               | None \<Rightarrow>
                   (let newItemDocument =
                          \<lparr>c_id = newId, c_bookId = bookObjectId,
                           c_quantity = quantity item, c_addedAt = now\<rparr>
                    in (case insertOne c_id newItemDocument (cart d2) of
                          Inl e \<Rightarrow> (Inl e, storageCall d2)
                        | Inr (insertedId, cart') \<Rightarrow>
                            (let d3 = storageCall (d2\<lparr>cart := cart'\<rparr>);
                                 newItem = findOne (\<lambda>c. c_id c = insertedId) (cart d3);
                                 d4 = storageCall d3
                             in (case newItem of
                                   None \<Rightarrow> (Inl FailedToCreateCartItem, d4)
                                 | Some n \<Rightarrow> (Inr (mapMongoId_cart n), d4))))))"

definition removeCartItem :: "string \<Rightarrow> db \<Rightarrow> (error + bool) \<times> db" where
  "removeCartItem cartItemId d =
     (if \<not> isValid cartItemId then (Inr False, d)
      else
        let d1 = getCartCollection d in
        case new_ObjectId cartItemId of
          Inl e \<Rightarrow> (Inl e, d1)
        | Inr oid \<Rightarrow>
            let (deletedCount, cart') = deleteOne (\<lambda>c. c_id c = oid) (cart d1);
                d2 = storageCall (d1\<lparr>cart := cart'\<rparr>)
            in (Inr (deletedCount = 1), d2))"

definition updateCartItemQuantity ::
  "string \<Rightarrow> number \<Rightarrow> db \<Rightarrow> (error + CartItem option) \<times> db" where
  "updateCartItemQuantity cartItemId q d =
     (if \<not> isValid cartItemId then (Inr None, d)
      else if jsLe q (Finite 0) then
        (case removeCartItem cartItemId d of
           (Inl e, d1) \<Rightarrow> (Inl e, d1)
         | (Inr _, d1) \<Rightarrow> (Inr None, d1))
      else
        let d1 = getCartCollection d in
        case new_ObjectId cartItemId of
          Inl e \<Rightarrow> (Inl e, d1)
        | Inr oid \<Rightarrow>
            let (result, cart') =
                  findOneAndUpdate (\<lambda>c. c_id c = oid) (\<lambda>c. c\<lparr>c_quantity := q\<rparr>) (cart d1);
                d2 = storageCall (d1\<lparr>cart := cart'\<rparr>)
            in (Inr (map_option mapMongoId_cart result), d2))"

definition clearCart :: "db \<Rightarrow> nat \<times> db" where
  "clearCart d =
     (let d1 = getCartCollection d;
          (deletedCount, cart') = deleteMany (cart d1);
          d2 = storageCall (d1\<lparr>cart := cart'\<rparr>)
      in (deletedCount, d2))"

text \<open>A cart operation as a value, and the cart after a sequence of operations run one
  after the other.\<close>
datatype cartOp =
    AddCartItem ObjectId string itemData
  | UpdateCartItemQuantity string number
  | RemoveCartItem string
  | ClearCart

fun cartStep :: "cartOp \<Rightarrow> db \<Rightarrow> db" where
  "cartStep (AddCartItem newId now item) d = snd (addCartItem newId now item d)"
| "cartStep (UpdateCartItemQuantity cartItemId q) d = snd (updateCartItemQuantity cartItemId q d)"
| "cartStep (RemoveCartItem cartItemId) d = snd (removeCartItem cartItemId d)"
| "cartStep ClearCart d = snd (clearCart d)"

fun runCart :: "cartOp list \<Rightarrow> db \<Rightarrow> db" where
  "runCart [] d = d"
| "runCart (op # ops) d = runCart ops (cartStep op d)"

section \<open>The review service\<close>

definition getReviewsCollection :: "db \<Rightarrow> db" where
  "getReviewsCollection d = connectToDatabase d"

definition mapMongoId_review :: "ReviewDocument \<Rightarrow> Review" where
  "mapMongoId_review doc =
     \<lparr>rv_id = toHexString (r_id doc), rv_bookId = toHexString (r_bookId doc),
      rv_author = r_author doc, rv_rating = r_rating doc, rv_title = r_title doc,
      rv_comment = r_comment doc, rv_timestamp = r_timestamp doc,
      rv_verified = r_verified doc\<rparr>"

definition getAllReviews :: "db \<Rightarrow> Review list \<times> db" where
  "getAllReviews d =
     (let d1 = getReviewsCollection d;
          documents = reviews d1;
          d2 = storageCall d1
      in (map mapMongoId_review documents, d2))"

definition getReviewById :: "string \<Rightarrow> db \<Rightarrow> (error + Review option) \<times> db" where
  "getReviewById ident d =
     (if \<not> isValid ident then (Inr None, d)
      else
        let d1 = getReviewsCollection d in
        case new_ObjectId ident of
          Inl e \<Rightarrow> (Inl e, d1)
        | Inr oid \<Rightarrow>
            let document = findOne (\<lambda>r. r_id r = oid) (reviews d1);
                d2 = storageCall d1
            in (Inr (map_option mapMongoId_review document), d2))"

definition getReviewsByBookId :: "string \<Rightarrow> db \<Rightarrow> (error + Review list option) \<times> db" where
  "getReviewsByBookId bookIdStr d =
     (if \<not> isValid bookIdStr then (Inr None, d)
      else
        let d1 = getReviewsCollection d in
        case new_ObjectId bookIdStr of
          Inl e \<Rightarrow> (Inl e, d1)
        | Inr oid \<Rightarrow>
            let documents = filter (\<lambda>r. r_bookId r = oid) (reviews d1);
                d2 = storageCall d1
            in (Inr (Some (map mapMongoId_review documents)), d2))"

text \<open>
  \<^verbatim>\<open>createReview\<close>. The document is the spread of \<open>reviewData\<close> with \<^verbatim>\<open>bookId\<close>,
  \<^verbatim>\<open>timestamp\<close> and \<^verbatim>\<open>verified\<close> overwritten; \<^verbatim>\<open>reviewData.verified || false\<close> is
  false for an absent flag. \<open>newId\<close> and \<open>now\<close> are as in \<open>addCartItem\<close>.
\<close>

definition createReview ::
  "ObjectId \<Rightarrow> string \<Rightarrow> ReviewData \<Rightarrow> db \<Rightarrow> (error + Review) \<times> db" where
  "createReview newId now reviewData d =
     (let d1 = getReviewsCollection d in
      case new_ObjectId (rd_bookId reviewData) of
        Inl e \<Rightarrow> (Inl e, d1)
      | Inr bookObjectId \<Rightarrow>
          (let reviewDocument =
                 \<lparr>r_id = newId, r_bookId = bookObjectId, r_author = rd_author reviewData,
                  r_rating = rd_rating reviewData, r_title = rd_title reviewData,
                  r_comment = rd_comment reviewData, r_timestamp = now,
                  r_verified = (case rd_verified reviewData of None \<Rightarrow> False | Some v \<Rightarrow> v)\<rparr>
           in (case insertOne r_id reviewDocument (reviews d1) of
                 Inl e \<Rightarrow> (Inl e, storageCall d1)
               | Inr (insertedId, reviews') \<Rightarrow>
                   (let d2 = storageCall (d1\<lparr>reviews := reviews'\<rparr>);
                        newReview = findOne (\<lambda>r. r_id r = insertedId) (reviews d2);
                        d3 = storageCall d2
                    in (case newReview of
                          None \<Rightarrow> (Inl FailedToCreateReview, d3)
                        | Some n \<Rightarrow> (Inr (mapMongoId_review n), d3))))))"

text \<open>
  \<^verbatim>\<open>{ $set: dbUpdates }\<close> on a review: a supplied field replaces the stored one, an
  absent field leaves it, and with no field at all nothing changes. The \<^verbatim>\<open>bookId\<close>
  of \<open>dbUpdates\<close> holds an identifier value, not the caller's string.
\<close>

definition set_review :: "ReviewUpdates \<Rightarrow> ReviewDocument \<Rightarrow> ReviewDocument" where
  "set_review u doc =
     \<lparr>r_id = r_id doc,
      r_bookId = (case ru_bookId u of None \<Rightarrow> r_bookId doc | Some v \<Rightarrow> v),
      r_author = (case ru_author u of None \<Rightarrow> r_author doc | Some v \<Rightarrow> v),
      r_rating = (case ru_rating u of None \<Rightarrow> r_rating doc | Some v \<Rightarrow> v),
      r_title = (case ru_title u of None \<Rightarrow> r_title doc | Some v \<Rightarrow> v),
      r_comment = (case ru_comment u of None \<Rightarrow> r_comment doc | Some v \<Rightarrow> v),
      r_timestamp = (case ru_timestamp u of None \<Rightarrow> r_timestamp doc | Some v \<Rightarrow> v),
      r_verified = (case ru_verified u of None \<Rightarrow> r_verified doc | Some v \<Rightarrow> v)\<rparr>"

text \<open>
  \<^verbatim>\<open>updateReview\<close>. \<open>restOfUpdates\<close> is \<open>updates\<close> without its \<^verbatim>\<open>bookId\<close>; the
  test \<^verbatim>\<open>bookId && ObjectId.isValid(bookId)\<close> is false for an absent, an empty and a
  malformed string.
\<close>

definition updateReview ::
  "string \<Rightarrow> ReviewUpdates \<Rightarrow> db \<Rightarrow> (error + Review option) \<times> db" where
  "updateReview ident updates d =
     (if \<not> isValid ident then (Inr None, d)
      else
        let d1 = getReviewsCollection d;
            restOfUpdates = updates\<lparr>ru_bookId := None\<rparr>;
            dbUpdates =
              (case ru_bookId updates of
                 None \<Rightarrow> Inr restOfUpdates
               | Some b \<Rightarrow>
                   if b \<noteq> [] \<and> isValid b
                   then map_sum id (\<lambda>oid. restOfUpdates\<lparr>ru_bookId := Some oid\<rparr>) (new_ObjectId b)
                   else Inr restOfUpdates)
        in case dbUpdates of
             Inl e \<Rightarrow> (Inl e, d1)
           | Inr dbu \<Rightarrow>
               (case new_ObjectId ident of
                  Inl e \<Rightarrow> (Inl e, d1)
                | Inr oid \<Rightarrow>
                    (let (result, reviews') =
                           findOneAndUpdate (\<lambda>r. r_id r = oid) (set_review dbu) (reviews d1);
                         d2 = storageCall (d1\<lparr>reviews := reviews'\<rparr>)
                     in (Inr (map_option mapMongoId_review result), d2))))"

definition deleteReview :: "string \<Rightarrow> db \<Rightarrow> (error + bool) \<times> db" where
  "deleteReview ident d =
     (if \<not> isValid ident then (Inr False, d)
      else
        let d1 = getReviewsCollection d in
        case new_ObjectId ident of
          Inl e \<Rightarrow> (Inl e, d1)
        | Inr oid \<Rightarrow>
            (let (deletedCount, reviews') = deleteOne (\<lambda>r. r_id r = oid) (reviews d1);
                 d2 = storageCall (d1\<lparr>reviews := reviews'\<rparr>)
             in (Inr (deletedCount = 1), d2)))"

section \<open>The book service\<close>

definition getBooksCollection :: "db \<Rightarrow> db" where
  "getBooksCollection d = connectToDatabase d"

definition mapMongoId_book :: "BookDocument \<Rightarrow> Book" where
  "mapMongoId_book doc = \<lparr>bk_id = toHexString (b_id doc), bk_rest = b_rest doc\<rparr>"

definition getAllBooks :: "db \<Rightarrow> Book list \<times> db" where
  "getAllBooks d =
     (let d1 = getBooksCollection d;
          documents = books d1;
          d2 = storageCall d1
      in (map mapMongoId_book documents, d2))"

definition getBookById :: "string \<Rightarrow> db \<Rightarrow> (error + Book option) \<times> db" where
  "getBookById ident d =
     (if \<not> isValid ident then (Inr None, d)
      else
        let d1 = getBooksCollection d in
        case new_ObjectId ident of
          Inl e \<Rightarrow> (Inl e, d1)
        | Inr oid \<Rightarrow>
            let document = findOne (\<lambda>b. b_id b = oid) (books d1);
                d2 = storageCall d1
            in (Inr (map_option mapMongoId_book document), d2))"

definition createBook :: "ObjectId \<Rightarrow> BookData \<Rightarrow> db \<Rightarrow> (error + Book) \<times> db" where
  "createBook newId bookData d =
     (let d1 = getBooksCollection d in
      case insertOne b_id \<lparr>b_id = newId, b_rest = bookData\<rparr> (books d1) of
        Inl e \<Rightarrow> (Inl e, storageCall d1)
      | Inr (insertedId, books') \<Rightarrow>
          (let d2 = storageCall (d1\<lparr>books := books'\<rparr>);
               newBook = findOne (\<lambda>b. b_id b = insertedId) (books d2);
               d3 = storageCall d2
           in (case newBook of
                 None \<Rightarrow> (Inl FailedToCreateBook, d3)
               | Some n \<Rightarrow> (Inr (mapMongoId_book n), d3))))"

text \<open>\<^verbatim>\<open>{ $set: updates }\<close> on a book.\<close>

definition set_book :: "BookUpdates \<Rightarrow> BookDocument \<Rightarrow> BookDocument" where
  "set_book u doc =
     \<lparr>b_id = b_id doc,
      b_rest =
        \<lparr>title = (case bu_title u of None \<Rightarrow> title (b_rest doc) | Some v \<Rightarrow> v),
         author = (case bu_author u of None \<Rightarrow> author (b_rest doc) | Some v \<Rightarrow> v),
         description =
           (case bu_description u of None \<Rightarrow> description (b_rest doc) | Some v \<Rightarrow> v),
         price = (case bu_price u of None \<Rightarrow> price (b_rest doc) | Some v \<Rightarrow> v),
         image = (case bu_image u of None \<Rightarrow> image (b_rest doc) | Some v \<Rightarrow> v),
         isbn = (case bu_isbn u of None \<Rightarrow> isbn (b_rest doc) | Some v \<Rightarrow> v),
         genre = (case bu_genre u of None \<Rightarrow> genre (b_rest doc) | Some v \<Rightarrow> v),
         tags = (case bu_tags u of None \<Rightarrow> tags (b_rest doc) | Some v \<Rightarrow> v),
         datePublished =
           (case bu_datePublished u of None \<Rightarrow> datePublished (b_rest doc) | Some v \<Rightarrow> v),
         pages = (case bu_pages u of None \<Rightarrow> pages (b_rest doc) | Some v \<Rightarrow> v),
         language = (case bu_language u of None \<Rightarrow> language (b_rest doc) | Some v \<Rightarrow> v),
         publisher = (case bu_publisher u of None \<Rightarrow> publisher (b_rest doc) | Some v \<Rightarrow> v),
         rating = (case bu_rating u of None \<Rightarrow> rating (b_rest doc) | Some v \<Rightarrow> v),
         reviewCount =
           (case bu_reviewCount u of None \<Rightarrow> reviewCount (b_rest doc) | Some v \<Rightarrow> v),
         inStock = (case bu_inStock u of None \<Rightarrow> inStock (b_rest doc) | Some v \<Rightarrow> v),
         featured = (case bu_featured u of None \<Rightarrow> featured (b_rest doc) | Some v \<Rightarrow> v)\<rparr>\<rparr>"

definition updateBook :: "string \<Rightarrow> BookUpdates \<Rightarrow> db \<Rightarrow> (error + Book option) \<times> db" where
  "updateBook ident updates d =
     (if \<not> isValid ident then (Inr None, d)
      else
        let d1 = getBooksCollection d in
        case new_ObjectId ident of
          Inl e \<Rightarrow> (Inl e, d1)
        | Inr oid \<Rightarrow>
            (let (result, books') =
                   findOneAndUpdate (\<lambda>b. b_id b = oid) (set_book updates) (books d1);
                 d2 = storageCall (d1\<lparr>books := books'\<rparr>)
             in (Inr (map_option mapMongoId_book result), d2)))"

definition deleteBook :: "string \<Rightarrow> db \<Rightarrow> (error + bool) \<times> db" where
  "deleteBook ident d =
     (if \<not> isValid ident then (Inr False, d)
      else
        let d1 = getBooksCollection d in
        case new_ObjectId ident of
          Inl e \<Rightarrow> (Inl e, d1)
        | Inr oid \<Rightarrow>
            (let (deletedCount, books') = deleteOne (\<lambda>b. b_id b = oid) (books d1);
                 d2 = storageCall (d1\<lparr>books := books'\<rparr>)
             in (Inr (deletedCount = 1), d2)))"

section \<open>Route handlers\<close>

text \<open>
  A response is its HTTP status and its JSON body: an \<^verbatim>\<open>{ error }\<close> object or a
  \<^verbatim>\<open>{ message, <entity> }\<close> object. A parsed request body gives each field as absent
  or present; the quantity of a cart request is any JSON value.
\<close>

datatype 'a reply = Error string | Message string 'a

record 'a response =
  status :: nat
  payload :: "'a reply"

datatype jsvalue = JUndefined | JNull | JBoolean bool | JNumber number | JString string

record cartPostBody =
  cp_bookId :: "string option"
  cp_quantity :: jsvalue

text \<open>\<^verbatim>\<open>POST /api/cart\<close>. \<^verbatim>\<open>!bookId\<close> holds for an absent and for an empty string.\<close>

definition POST_cart ::
  "ObjectId \<Rightarrow> string \<Rightarrow> cartPostBody \<Rightarrow> db \<Rightarrow> CartItem response \<times> db" where
  "POST_cart newId now body d =
     (case (cp_bookId body, cp_quantity body) of
        (None, _) \<Rightarrow>
          (\<lparr>status = 400, payload = Error ''Missing required fields: bookId, quantity''\<rparr>, d)
      | (Some b, q) \<Rightarrow>
          if b = [] \<or> q = JUndefined then
            (\<lparr>status = 400, payload = Error ''Missing required fields: bookId, quantity''\<rparr>, d)
          else
            (case q of
               JNumber n \<Rightarrow>
                 if jsLe n (Finite 0) then
                   (\<lparr>status = 400, payload = Error ''Quantity must be a positive number''\<rparr>, d)
                 else
                   (case addCartItem newId now \<lparr>bookId = b, quantity = n\<rparr> d of
                      (Inr newItem, d') \<Rightarrow>
                        (\<lparr>status = 201,
                          payload = Message ''Item added/updated in cart successfully'' newItem\<rparr>,
                         d')
                    | (Inl e, d') \<Rightarrow>
                        (\<lparr>status = 500,
                          payload = Error ''An error occurred while adding the item to the cart.''\<rparr>,
                         d'))
             | _ \<Rightarrow>
                 (\<lparr>status = 400, payload = Error ''Quantity must be a positive number''\<rparr>, d)))"

record reviewPostBody =
  rp_bookId :: "string option"
  rp_author :: "string option"
  rp_rating :: "number option"
  rp_title :: "string option"
  rp_comment :: "string option"
  rp_timestamp :: "string option"
  rp_verified :: "bool option"

text \<open>
  \<^verbatim>\<open>POST /api/reviews\<close>. The required fields are checked in the order of the source's
  list; \<open>routeNow\<close> is the route's own reading of the clock and \<open>now\<close> the service's.
\<close>

definition POST_reviews ::
  "ObjectId \<Rightarrow> string \<Rightarrow> string \<Rightarrow> reviewPostBody \<Rightarrow> db \<Rightarrow> Review response \<times> db" where
  "POST_reviews newId routeNow now body d =
     (case rp_bookId body of
        None \<Rightarrow> (\<lparr>status = 400, payload = Error ''Missing required field: bookId''\<rparr>, d)
      | Some b \<Rightarrow>
     (case rp_author body of
        None \<Rightarrow> (\<lparr>status = 400, payload = Error ''Missing required field: author''\<rparr>, d)
      | Some a \<Rightarrow>
     (case rp_rating body of
        None \<Rightarrow> (\<lparr>status = 400, payload = Error ''Missing required field: rating''\<rparr>, d)
      | Some r \<Rightarrow>
     (case rp_title body of
        None \<Rightarrow> (\<lparr>status = 400, payload = Error ''Missing required field: title''\<rparr>, d)
      | Some t \<Rightarrow>
     (case rp_comment body of
        None \<Rightarrow> (\<lparr>status = 400, payload = Error ''Missing required field: comment''\<rparr>, d)
      | Some c \<Rightarrow>
          (let reviewData =
                 \<lparr>rd_bookId = b, rd_author = a, rd_rating = r, rd_title = t, rd_comment = c,
                  rd_timestamp = Some routeNow,
                  rd_verified = Some (case rp_verified body of None \<Rightarrow> False | Some v \<Rightarrow> v)\<rparr>
           in (case createReview newId now reviewData d of
                 (Inr newReview, d') \<Rightarrow>
                   (\<lparr>status = 201, payload = Message ''Review added successfully'' newReview\<rparr>, d')
               | (Inl e, d') \<Rightarrow>
                   (\<lparr>status = 500,
                     payload = Error ''An error occurred while creating the review.''\<rparr>, d'))))))))"

section \<open>Properties of the cart state\<close>


definition oneLinePerBook :: "CartItemDocument list \<Rightarrow> bool" where
  "oneLinePerBook xs = distinct (map c_bookId xs)"


definition setQuantity :: "ObjectId \<Rightarrow> number \<Rightarrow> CartItemDocument list \<Rightarrow> CartItemDocument list" where
  "setQuantity i q xs = map (\<lambda>c. if c_id c = i then c\<lparr>c_quantity := q\<rparr> else c) xs"

section \<open>Example data\<close>

definition emptyDb :: db where
  "emptyDb = \<lparr>books = [], reviews = [], cart = [], storageCalls = 0\<rparr>"

definition lineA :: CartItemDocument where
  "lineA = \<lparr>c_id = ''aaaaaaaaaaaaaaaaaaaaaaa1'', c_bookId = ''bbbbbbbbbbbbbbbbbbbbbbb1'',
            c_quantity = Finite 4, c_addedAt = ''2024-01-01T00:00:00.000Z''\<rparr>"

definition lineB :: CartItemDocument where
  "lineB = \<lparr>c_id = ''aaaaaaaaaaaaaaaaaaaaaaa2'', c_bookId = ''bbbbbbbbbbbbbbbbbbbbbbb2'',
            c_quantity = Finite 1, c_addedAt = ''2024-01-02T00:00:00.000Z''\<rparr>"

definition cartDb :: db where
  "cartDb = \<lparr>books = [], reviews = [], cart = [lineA, lineB], storageCalls = 0\<rparr>"

definition reviewA :: ReviewDocument where
  "reviewA = \<lparr>r_id = ''ccccccccccccccccccccccc1'', r_bookId = ''bbbbbbbbbbbbbbbbbbbbbbb1'',
              r_author = ''Ann'', r_rating = Finite 4, r_title = ''Good'', r_comment = ''Liked it'',
              r_timestamp = ''2024-01-03T00:00:00.000Z'', r_verified = False\<rparr>"

definition reviewDb :: db where
  "reviewDb = \<lparr>books = [], reviews = [reviewA], cart = [], storageCalls = 0\<rparr>"

definition titleUpdate :: "string option \<Rightarrow> ReviewUpdates" where
  "titleUpdate b = \<lparr>ru_bookId = b, ru_author = None, ru_rating = None,
                    ru_title = Some ''Changed'', ru_comment = None, ru_timestamp = None,
                    ru_verified = None\<rparr>"

definition reviewDataA :: ReviewData where
  "reviewDataA = \<lparr>rd_bookId = ''BBBBBBBBBBBBBBBBBBBBBBB1'', rd_author = ''Bob'', rd_rating = Finite 5,
                  rd_title = ''Great'', rd_comment = ''Loved it'',
                  rd_timestamp = Some ''1999-12-31T00:00:00.000Z'', rd_verified = None\<rparr>"

definition bookDataA :: BookData where
  "bookDataA = \<lparr>title = ''Dune'', author = ''Frank Herbert'', description = ''A novel'',
                price = Finite 10, image = ''/dune.jpg'', isbn = ''9780441013593'',
                genre = [''Science Fiction''], tags = [''classic''],
                datePublished = ''1965-08-01'', pages = Finite 412, language = ''English'',
                publisher = ''Chilton'', rating = Finite 5, reviewCount = Finite 0, inStock = True,
                featured = False\<rparr>"

definition noBookUpdates :: BookUpdates where
  "noBookUpdates = \<lparr>bu_title = None, bu_author = None, bu_description = None,
     bu_price = None, bu_image = None, bu_isbn = None, bu_genre = None, bu_tags = None,
     bu_datePublished = None, bu_pages = None, bu_language = None, bu_publisher = None,
     bu_rating = None, bu_reviewCount = None, bu_inStock = None, bu_featured = None\<rparr>"

definition reviewBodyA :: reviewPostBody where
  "reviewBodyA = \<lparr>rp_bookId = Some ''BBBBBBBBBBBBBBBBBBBBBBB1'', rp_author = Some ''Bob'',
                  rp_rating = Some (Finite 5), rp_title = Some ''Great'', rp_comment = Some ''Loved it'',
                  rp_timestamp = Some ''1999-12-31T00:00:00.000Z'', rp_verified = Some True\<rparr>"

section \<open>Facts about numbers\<close>

text \<open>Rounding leaves an integer of magnitude at most \<open>2 ^ 53\<close> as it is, so the sum of two
  integers is exact when it lies in that range; \<open>2 ^ 53 + 1\<close> is the first integer that
  is not a double.\<close>

lemma roundHalfEven_of_int: "roundHalfEven (of_int z) = z"
  by (simp add: roundHalfEven_def)

lemma roundToDouble_pos_int:
  assumes pos: "0 < a" and le: "a \<le> 2 ^ 53"
  shows "roundToDouble (of_int a) = Finite (of_int a)"
proof -
  define k where "k = bitlen a - 1"
  have b: "2 ^ nat k \<le> a" and k0: "0 \<le> k"
    using bitlen_bounds[OF pos] pos unfolding k_def
    by (auto simp: bitlen_alt_def)
  have k53: "nat k \<le> 53"
  proof (rule power_le_imp_le_exp)
    show "(1::int) < 2" by simp
    show "(2::int) ^ nat k \<le> 2 ^ 53" using b le by linarith
  qed
  have e: "max (ilog2 \<bar>of_int a\<bar>) (- 1022) = k"
    using pos k0 by (simp add: ilog2_def k_def)
  have big: "\<not> pow2 1024 \<le> (of_int a :: rat)"
  proof -
    have "(of_int a :: rat) \<le> 2 ^ 53" using le by (metis of_int_le_numeral_power_cancel_iff)
    also have "\<dots> < 2 ^ 1024" by (rule power_strict_increasing) simp_all
    finally show ?thesis by (simp add: pow2_def)
  qed
  have r: "of_int (roundHalfEven (of_int a / pow2 (k - 52))) * pow2 (k - 52) = (of_int a :: rat)"
  proof (cases "k \<le> 52")
    case True
    define j where "j = nat (52 - k)"
    have p: "pow2 (k - 52) = 1 / 2 ^ j"
    proof (cases "k = 52")
      case True then show ?thesis by (simp add: pow2_def j_def)
    next
      case False
      then have "k < 52" using \<open>k \<le> 52\<close> by simp
      then show ?thesis by (simp add: pow2_def j_def)
    qed
    have m: "of_int a / pow2 (k - 52) = (of_int (a * 2 ^ j) :: rat)" by (simp add: p)
    have "of_int (roundHalfEven (of_int a / pow2 (k - 52))) * pow2 (k - 52)
        = (of_int (a * 2 ^ j) :: rat) * pow2 (k - 52)"
      unfolding m roundHalfEven_of_int ..
    also have "\<dots> = of_int a" by (simp add: p)
    finally show ?thesis .
  next
    case False
    then have k: "k = 53" using k53 k0 by linarith
    have "(2::int) ^ 53 \<le> a" using b k by simp
    then have a: "a = 2 ^ 53" using le by linarith
    have m: "of_int a / pow2 (k - 52) = (of_int (2 ^ 52) :: rat)" by (simp add: a k pow2_def)
    have "of_int (roundHalfEven (of_int a / pow2 (k - 52))) * pow2 (k - 52)
        = (of_int (2 ^ 52) :: rat) * pow2 (k - 52)"
      unfolding m roundHalfEven_of_int ..
    also have "\<dots> = of_int a" by (simp add: a k pow2_def)
    finally show ?thesis .
  qed
  have nz: "(of_int a :: rat) \<noteq> 0" and ab: "\<bar>of_int a :: rat\<bar> = of_int a"
    and sg: "sgn (of_int a :: rat) = 1" using pos by simp_all
  show ?thesis
    unfolding roundToDouble_def Let_def e
    using pos big by (simp add: r)
qed

lemma roundToDouble_neg: "roundToDouble (- x) = (case roundToDouble x of
    Finite r \<Rightarrow> Finite (- r) | PosInfinity \<Rightarrow> NegInfinity | NegInfinity \<Rightarrow> PosInfinity | NaN \<Rightarrow> NaN)"
  by (auto simp: roundToDouble_def Let_def sgn_if)

lemma roundToDouble_of_int:
  assumes "\<bar>n\<bar> \<le> 2 ^ 53"
  shows "roundToDouble (of_int n) = Finite (of_int n)"
proof -
  consider "n = 0" | "0 < n" | "n < 0" by linarith
  then show ?thesis
  proof cases
    case 1 then show ?thesis by (simp add: roundToDouble_def)
  next
    case 2 then show ?thesis using assms roundToDouble_pos_int[of n] by simp
  next
    case 3
    then have "roundToDouble (of_int (- n)) = Finite (of_int (- n))"
      using assms roundToDouble_pos_int[of "- n"] by simp
    then show ?thesis using roundToDouble_neg[of "of_int (- n)"] by simp
  qed
qed



section \<open>Facts about the collection methods\<close>

lemmas plumbing =
  getCartCollection_def getReviewsCollection_def getBooksCollection_def
  connectToDatabase_def storageCall_def Let_def

lemmas id_eval = isValid_def isHexDigit_def isLowerHexDigit_def new_ObjectId_def
  toLowerHex_def toHexString_def wfObjectId_def

lemmas data_eval = emptyDb_def cartDb_def lineA_def lineB_def reviewDb_def reviewA_def
  titleUpdate_def

lemmas driver_eval = findOne_def findOneAndUpdate_def deleteOne_def deleteMany_def
  insertOne_def plumbing

lemma findOne_None: "findOne P xs = None \<longleftrightarrow> (\<forall>x\<in>set xs. \<not> P x)"
  by (auto simp: findOne_def find_None_iff)

lemma findOne_SomeD: "findOne P xs = Some x \<Longrightarrow> x \<in> set xs \<and> P x"
  by (auto simp: findOne_def find_Some_iff)

lemma updateFirst_none: "findOne P xs = None \<Longrightarrow> updateFirst P f xs = xs"
  by (induction xs) (auto simp: findOne_def split: if_splits)

lemma removeFirst_none: "findOne P xs = None \<Longrightarrow> removeFirst P xs = xs"
  by (induction xs) (auto simp: findOne_def split: if_splits)

lemma updateFirst_by_key:
  "distinct (map k xs) \<Longrightarrow> x \<in> set xs \<Longrightarrow>
   updateFirst (\<lambda>c. k c = k x) f xs = map (\<lambda>c. if k c = k x then f c else c) xs"
  by (induction xs) (auto simp: image_iff intro!: map_idI[symmetric])

lemma map_key_updateFirst:
  "(\<And>x. k (f x) = k x) \<Longrightarrow> map k (updateFirst P f xs) = map k xs"
  by (induction xs) auto

lemma length_updateFirst: "length (updateFirst P f xs) = length xs"
  by (induction xs) auto

lemma set_removeFirst: "set (removeFirst P xs) \<subseteq> set xs"
  by (induction xs) auto

lemma distinct_removeFirst: "distinct (map k xs) \<Longrightarrow> distinct (map k (removeFirst P xs))"
proof (induction xs)
  case Nil
  then show ?case by simp
next
  case (Cons x xs)
  have "k x \<notin> k ` set (removeFirst P xs)"
    using Cons.prems set_removeFirst[of P xs] by auto
  with Cons show ?case by auto
qed

lemma length_removeFirst:
  "length (removeFirst P xs) + (if findOne P xs = None then 0 else 1) = length xs"
  by (induction xs) (auto simp: findOne_def)

lemma findOne_snoc:
  "findOne P xs = None \<Longrightarrow> findOne P (xs @ [y]) = (if P y then Some y else None)"
  by (induction xs) (auto simp: findOne_def split: if_splits)

lemma findOne_by_key:
  "distinct (map k xs) \<Longrightarrow> x \<in> set xs \<Longrightarrow> findOne (\<lambda>c. k c = k x) xs = Some x"
  by (induction xs) (auto simp: findOne_def image_iff)

lemma removeFirst_by_key_gone:
  "distinct (map k xs) \<Longrightarrow> i \<notin> k ` set (removeFirst (\<lambda>c. k c = i) xs)"
  by (induction xs) auto

lemma isValid_new_ObjectId: "isValid s \<Longrightarrow> new_ObjectId s = Inr (map toLowerHex s)"
  by (simp add: new_ObjectId_def)

lemma new_ObjectId_InrD: "new_ObjectId s = Inr oid \<Longrightarrow> isValid s \<and> oid = map toLowerHex s"
  by (auto simp: new_ObjectId_def split: if_splits)

lemma addCartItem_merge:
  assumes b: "new_ObjectId (bookId item) = Inr bo"
    and ex: "findOne (\<lambda>c. c_bookId c = bo) (cart d) = Some ex"
    and ids: "distinct (map c_id (cart d))"
  shows "addCartItem newId now item d =
     (Inr (mapMongoId_cart (ex\<lparr>c_quantity := jsAdd (c_quantity ex) (quantity item)\<rparr>)),
      d\<lparr>cart := setQuantity (c_id ex) (jsAdd (c_quantity ex) (quantity item)) (cart d),
        storageCalls := storageCalls d + 3\<rparr>)"
proof -
  have v: "isValid (bookId item)" using b new_ObjectId_InrD by blast
  have mem: "ex \<in> set (cart d)" using ex findOne_SomeD by fastforce
  have f: "findOne (\<lambda>c. c_id c = c_id ex) (cart d) = Some ex"
    using findOne_by_key[OF ids mem] .
  have u: "updateFirst (\<lambda>c. c_id c = c_id ex) (\<lambda>c. c\<lparr>c_quantity := q\<rparr>) (cart d)
      = setQuantity (c_id ex) q (cart d)" for q
    unfolding setQuantity_def using updateFirst_by_key[OF ids mem] by simp
  show ?thesis
    unfolding addCartItem_def
    by (simp add: v b ex f u getCartCollection_def connectToDatabase_def storageCall_def
        findOneAndUpdate_def Let_def)
qed

lemma addCartItem_insert:
  assumes b: "new_ObjectId (bookId item) = Inr bo"
    and ex: "findOne (\<lambda>c. c_bookId c = bo) (cart d) = None"
    and fresh: "newId \<notin> set (map c_id (cart d))"
  shows "addCartItem newId now item d =
     (Inr (mapMongoId_cart \<lparr>c_id = newId, c_bookId = bo, c_quantity = quantity item, c_addedAt = now\<rparr>),
      d\<lparr>cart := cart d @ [\<lparr>c_id = newId, c_bookId = bo, c_quantity = quantity item, c_addedAt = now\<rparr>],
        storageCalls := storageCalls d + 4\<rparr>)"
proof -
  have v: "isValid (bookId item)" using b new_ObjectId_InrD by blast
  have f: "findOne (\<lambda>c. c_id c = newId)
      (cart d @ [\<lparr>c_id = newId, c_bookId = bo, c_quantity = quantity item, c_addedAt = now\<rparr>])
      = Some \<lparr>c_id = newId, c_bookId = bo, c_quantity = quantity item, c_addedAt = now\<rparr>"
    using fresh by (subst findOne_snoc) (auto simp: findOne_None)
  show ?thesis
    unfolding addCartItem_def using fresh
    by (simp add: v b ex f getCartCollection_def connectToDatabase_def storageCall_def
        insertOne_def Let_def)
qed






section \<open>Facts about the cart service\<close>

lemma addCartItem_oneLinePerBook:
  "oneLinePerBook (cart d) \<Longrightarrow> oneLinePerBook (cart (snd (addCartItem n t i d)))"
  unfolding addCartItem_def oneLinePerBook_def
  by (auto simp: plumbing findOneAndUpdate_def insertOne_def map_key_updateFirst
      findOne_None split: sum.splits option.splits prod.splits if_splits)

lemma removeCartItem_oneLinePerBook:
  "oneLinePerBook (cart d) \<Longrightarrow> oneLinePerBook (cart (snd (removeCartItem s d)))"
  unfolding removeCartItem_def oneLinePerBook_def
  by (auto simp: plumbing deleteOne_def distinct_removeFirst
      split: sum.splits option.splits prod.splits if_splits)

lemma updateCartItemQuantity_oneLinePerBook:
  "oneLinePerBook (cart d) \<Longrightarrow> oneLinePerBook (cart (snd (updateCartItemQuantity s q d)))"
proof (cases "isValid s \<and> jsLe q (Finite 0)")
  case True
  assume inv: "oneLinePerBook (cart d)"
  have "snd (updateCartItemQuantity s q d) = snd (removeCartItem s d)"
    using True unfolding updateCartItemQuantity_def
    by (auto split: prod.splits sum.splits)
  then show ?thesis using removeCartItem_oneLinePerBook[OF inv] by simp
next
  case False
  assume inv: "oneLinePerBook (cart d)"
  then show ?thesis using False
    unfolding updateCartItemQuantity_def oneLinePerBook_def
    by (auto simp: plumbing findOneAndUpdate_def map_key_updateFirst
      split: sum.splits option.splits prod.splits if_splits)
qed

lemma clearCart_oneLinePerBook: "oneLinePerBook (cart (snd (clearCart d)))"
  by (simp add: clearCart_def oneLinePerBook_def plumbing deleteMany_def)

lemma cartStep_oneLinePerBook:
  "oneLinePerBook (cart d) \<Longrightarrow> oneLinePerBook (cart (cartStep op d))"
  by (cases op)
    (simp_all add: addCartItem_oneLinePerBook removeCartItem_oneLinePerBook
      updateCartItemQuantity_oneLinePerBook clearCart_oneLinePerBook)

lemma runCart_oneLinePerBook:
  "oneLinePerBook (cart d) \<Longrightarrow> oneLinePerBook (cart (runCart ops d))"
  by (induction ops arbitrary: d) (simp_all add: cartStep_oneLinePerBook)

lemma setQuantity_frame:
  "map c_id (setQuantity i q xs) = map c_id xs
   \<and> map c_bookId (setQuantity i q xs) = map c_bookId xs
   \<and> map c_addedAt (setQuantity i q xs) = map c_addedAt xs"
  by (induction xs) (auto simp: setQuantity_def)

lemma removeCartItem_valid:
  "new_ObjectId s = Inr oid \<Longrightarrow>
   removeCartItem s d =
     (Inr (findOne (\<lambda>c. c_id c = oid) (cart d) \<noteq> None),
      d\<lparr>cart := removeFirst (\<lambda>c. c_id c = oid) (cart d), storageCalls := storageCalls d + 2\<rparr>)"
  unfolding removeCartItem_def
  by (auto simp: plumbing deleteOne_def dest: new_ObjectId_InrD)

lemma removeCartItem_invalid: "\<not> isValid s \<Longrightarrow> removeCartItem s d = (Inr False, d)"
  by (simp add: removeCartItem_def)

lemma ids_getCart: "map ci_id (fst (getCart d)) = map (\<lambda>c. toHexString (c_id c)) (cart d)"
  by (simp add: getCart_def plumbing mapMongoId_cart_def)

lemma lowerHex_isHex: "isLowerHexDigit c \<Longrightarrow> isHexDigit c \<and> toLowerHex c = c"
  by (auto simp: isLowerHexDigit_def isHexDigit_def toLowerHex_def)

lemma wfObjectId_roundtrip:
  "wfObjectId oid \<Longrightarrow> new_ObjectId (toHexString oid) = Inr oid"
  unfolding wfObjectId_def new_ObjectId_def isValid_def toHexString_def
  by (auto simp: list_all_iff lowerHex_isHex intro!: map_idI)


text \<open>The store keeps the identifiers of a collection distinct; the cart operations of the
  model do too.\<close>

lemma addCartItem_distinct_ids:
  "distinct (map c_id (cart d)) \<Longrightarrow> distinct (map c_id (cart (snd (addCartItem n t i d))))"
  unfolding addCartItem_def
  by (auto simp: plumbing findOneAndUpdate_def insertOne_def map_key_updateFirst
      split: sum.splits option.splits prod.splits if_splits)

lemma removeCartItem_distinct_ids:
  "distinct (map c_id (cart d)) \<Longrightarrow> distinct (map c_id (cart (snd (removeCartItem s d))))"
  unfolding removeCartItem_def
  by (auto simp: plumbing deleteOne_def distinct_removeFirst
      split: sum.splits option.splits prod.splits if_splits)

lemma updateCartItemQuantity_distinct_ids:
  assumes ids: "distinct (map c_id (cart d))"
  shows "distinct (map c_id (cart (snd (updateCartItemQuantity s q d))))"
proof (cases "isValid s \<and> jsLe q (Finite 0)")
  case True
  have "snd (updateCartItemQuantity s q d) = snd (removeCartItem s d)"
    using True unfolding updateCartItemQuantity_def
    by (auto split: prod.splits sum.splits)
  then show ?thesis using removeCartItem_distinct_ids[OF ids] by simp
next
  case False
  then show ?thesis using ids
    unfolding updateCartItemQuantity_def
    by (auto simp: plumbing findOneAndUpdate_def map_key_updateFirst
      split: sum.splits option.splits prod.splits if_splits)
qed

lemma cartStep_distinct_ids:
  "distinct (map c_id (cart d)) \<Longrightarrow> distinct (map c_id (cart (cartStep op d)))"
  by (cases op)
    (simp_all add: addCartItem_distinct_ids removeCartItem_distinct_ids
      updateCartItemQuantity_distinct_ids clearCart_def plumbing deleteMany_def)

section \<open>Facts about the review service\<close>

lemma createReview_stores:
  assumes b: "new_ObjectId (rd_bookId reviewData) = Inr bo"
    and fresh: "newId \<notin> set (map r_id (reviews d))"
  shows "createReview newId now reviewData d =
      (Inr (mapMongoId_review
             \<lparr>r_id = newId, r_bookId = bo, r_author = rd_author reviewData,
              r_rating = rd_rating reviewData, r_title = rd_title reviewData,
              r_comment = rd_comment reviewData, r_timestamp = now,
              r_verified = (case rd_verified reviewData of None \<Rightarrow> False | Some v \<Rightarrow> v)\<rparr>),
       d\<lparr>reviews := reviews d @
             [\<lparr>r_id = newId, r_bookId = bo, r_author = rd_author reviewData,
               r_rating = rd_rating reviewData, r_title = rd_title reviewData,
               r_comment = rd_comment reviewData, r_timestamp = now,
               r_verified = (case rd_verified reviewData of None \<Rightarrow> False | Some v \<Rightarrow> v)\<rparr>],
         storageCalls := storageCalls d + 3\<rparr>)"
proof -
  let ?doc = "\<lparr>r_id = newId, r_bookId = bo, r_author = rd_author reviewData,
               r_rating = rd_rating reviewData, r_title = rd_title reviewData,
               r_comment = rd_comment reviewData, r_timestamp = now,
               r_verified = (case rd_verified reviewData of None \<Rightarrow> False | Some v \<Rightarrow> v)\<rparr>"
  have f: "findOne (\<lambda>r. r_id r = newId) (reviews d @ [?doc]) = Some ?doc"
    using fresh by (subst findOne_snoc) (auto simp: findOne_None)
  show ?thesis
    unfolding createReview_def using fresh by (simp add: b plumbing insertOne_def f)
qed

section \<open>The claims\<close>




text \<open>
  C2. "At most one cart line per book identifier" is an invariant of the cart: it holds
  for the empty cart, every cart operation (\<open>addCartItem\<close>, \<open>updateCartItemQuantity\<close>,
  \<open>removeCartItem\<close>, \<open>clearCart\<close>, with any arguments and any outcome) preserves it, and it
  therefore holds after every sequence of operations run one after the other from an empty
  cart.
\<close>

theorem oneLinePerBook_invariant:
  "oneLinePerBook []
   \<and> (oneLinePerBook (cart d) \<longrightarrow> oneLinePerBook (cart (cartStep op d)))
   \<and> oneLinePerBook (cart (runCart ops (d\<lparr>cart := []\<rparr>)))"
proof -
  have e: "oneLinePerBook []" by (simp add: oneLinePerBook_def)
  have "oneLinePerBook (cart (d\<lparr>cart := []\<rparr>))" using e by simp
  then have "oneLinePerBook (cart (runCart ops (d\<lparr>cart := []\<rparr>)))"
    by (rule runCart_oneLinePerBook)
  with e show ?thesis using cartStep_oneLinePerBook by blast
qed

theorem oneLinePerBook_invariant_witness:
  "oneLinePerBook (cart cartDb)
   \<and> oneLinePerBook (cart (cartStep (AddCartItem ''aaaaaaaaaaaaaaaaaaaaaaa3'' ''t1''
        \<lparr>bookId = ''BBBBBBBBBBBBBBBBBBBBBBB2'', quantity = Finite 2\<rparr>) cartDb))"
proof -
  have h: "oneLinePerBook (cart cartDb)"
    by (simp add: oneLinePerBook_def cartDb_def lineA_def lineB_def)
  show ?thesis
    using oneLinePerBook_invariant [of cartDb "AddCartItem ''aaaaaaaaaaaaaaaaaaaaaaa3'' ''t1''
        \<lparr>bookId = ''BBBBBBBBBBBBBBBBBBBBBBB2'', quantity = Finite 2\<rparr>" "[]"] h
    by simp
qed

text \<open>
  C3, as the code has it. \<open>addCartItem\<close> fails with the error \<^verbatim>\<open>Invalid Book ID\<close> on a
  malformed book identifier and leaves the database as it was. It does not look at the
  quantity: the check is in the \<^verbatim>\<open>POST /api/cart\<close> handler, which answers 400 without
  calling the service, and so without changing the database, when the book identifier or
  the quantity is missing and when the quantity is not a number or is not positive.
\<close>

theorem addCartItem_rejections:
  "(\<not> isValid (bookId item) \<longrightarrow> addCartItem newId now item d = (Inl InvalidBookID, d))
   \<and> (cp_bookId body = None \<or> cp_bookId body = Some [] \<or> cp_quantity body = JUndefined \<longrightarrow>
        POST_cart newId now body d
          = (\<lparr>status = 400, payload = Error ''Missing required fields: bookId, quantity''\<rparr>, d))
   \<and> (cp_bookId body \<noteq> None \<and> cp_bookId body \<noteq> Some [] \<and> cp_quantity body \<noteq> JUndefined
        \<and> (case cp_quantity body of JNumber n \<Rightarrow> jsLe n (Finite 0) | _ \<Rightarrow> True) \<longrightarrow>
        POST_cart newId now body d
          = (\<lparr>status = 400, payload = Error ''Quantity must be a positive number''\<rparr>, d))"
  by (auto simp: addCartItem_def POST_cart_def split: option.splits jsvalue.splits)

theorem addCartItem_rejections_witness:
  "\<not> isValid (bookId \<lparr>bookId = ''not-a-book-id'', quantity = Finite 1\<rparr>)
   \<and> addCartItem ''aaaaaaaaaaaaaaaaaaaaaaa3'' ''t1'' \<lparr>bookId = ''not-a-book-id'', quantity = Finite 1\<rparr> cartDb
       = (Inl InvalidBookID, cartDb)
   \<and> POST_cart ''aaaaaaaaaaaaaaaaaaaaaaa3'' ''t1''
        \<lparr>cp_bookId = Some ''bbbbbbbbbbbbbbbbbbbbbbb1'', cp_quantity = JNumber (Finite 0)\<rparr> cartDb
       = (\<lparr>status = 400, payload = Error ''Quantity must be a positive number''\<rparr>, cartDb)"
proof -
  have h: "\<not> isValid (bookId \<lparr>bookId = ''not-a-book-id'', quantity = Finite 1\<rparr>)"
    by (simp add: id_eval)
  show ?thesis
    using addCartItem_rejections [of "\<lparr>bookId = ''not-a-book-id'', quantity = Finite 1\<rparr>"
        "''aaaaaaaaaaaaaaaaaaaaaaa3''" "''t1''" cartDb
        "\<lparr>cp_bookId = Some ''bbbbbbbbbbbbbbbbbbbbbbb1'', cp_quantity = JNumber (Finite 0)\<rparr>"] h
    by simp
qed

text \<open>
  C3 as stated fails: \<open>addCartItem\<close> accepts the quantity 0 for a valid book identifier
  and inserts a line with it, and the handler answers 500 to a malformed book identifier.
\<close>

theorem addCartItem_quantity_counterexample:
  "isValid ''bbbbbbbbbbbbbbbbbbbbbbb1''
   \<and> addCartItem ''aaaaaaaaaaaaaaaaaaaaaaa3'' ''t1''
        \<lparr>bookId = ''bbbbbbbbbbbbbbbbbbbbbbb1'', quantity = Finite 0\<rparr> emptyDb
       = (Inr \<lparr>ci_id = ''aaaaaaaaaaaaaaaaaaaaaaa3'', ci_bookId = ''bbbbbbbbbbbbbbbbbbbbbbb1'',
               ci_quantity = Finite 0, ci_addedAt = ''t1''\<rparr>,
          emptyDb\<lparr>cart := [\<lparr>c_id = ''aaaaaaaaaaaaaaaaaaaaaaa3'',
                              c_bookId = ''bbbbbbbbbbbbbbbbbbbbbbb1'', c_quantity = Finite 0,
                              c_addedAt = ''t1''\<rparr>],
                   storageCalls := 4\<rparr>)
   \<and> \<not> isValid ''not-a-book-id''
   \<and> status (fst (POST_cart ''aaaaaaaaaaaaaaaaaaaaaaa3'' ''t1''
         \<lparr>cp_bookId = Some ''not-a-book-id'', cp_quantity = JNumber (Finite 1)\<rparr> emptyDb)) = 500"
  by (simp add: addCartItem_def POST_cart_def id_eval data_eval driver_eval mapMongoId_cart_def)

text \<open>
  C4, as the code has it. For a well-formed review identifier whose review exists, a
  partial update whose \<^verbatim>\<open>bookId\<close> is absent or malformed is not rejected: every other
  supplied field is applied, the stored book reference stays as it was, and the updated
  review is returned. The stored identifiers of the collection are distinct.
\<close>

theorem updateReview_bookId_guard:
  assumes v: "new_ObjectId ident = Inr oid"
    and ids: "distinct (map r_id (reviews d))"
    and f: "findOne (\<lambda>r. r_id r = oid) (reviews d) = Some doc"
    and bad: "case ru_bookId updates of None \<Rightarrow> True | Some b \<Rightarrow> \<not> isValid b"
  shows "fst (updateReview ident updates d) =
           Inr (Some
             \<lparr>rv_id = toHexString oid, rv_bookId = toHexString (r_bookId doc),
              rv_author = (case ru_author updates of None \<Rightarrow> r_author doc | Some x \<Rightarrow> x),
              rv_rating = (case ru_rating updates of None \<Rightarrow> r_rating doc | Some x \<Rightarrow> x),
              rv_title = (case ru_title updates of None \<Rightarrow> r_title doc | Some x \<Rightarrow> x),
              rv_comment = (case ru_comment updates of None \<Rightarrow> r_comment doc | Some x \<Rightarrow> x),
              rv_timestamp = (case ru_timestamp updates of None \<Rightarrow> r_timestamp doc | Some x \<Rightarrow> x),
              rv_verified = (case ru_verified updates of None \<Rightarrow> r_verified doc | Some x \<Rightarrow> x)\<rparr>)
       \<and> reviews (snd (updateReview ident updates d))
           = map (\<lambda>r. if r_id r = oid then set_review (updates\<lparr>ru_bookId := None\<rparr>) r else r)
               (reviews d)
       \<and> map r_bookId (reviews (snd (updateReview ident updates d))) = map r_bookId (reviews d)"
proof -
  have valid: "isValid ident" using v new_ObjectId_InrD by blast
  have mem: "doc \<in> set (reviews d)" and k: "r_id doc = oid"
    using findOne_SomeD[OF f] by simp_all
  have u: "updateReview ident updates d =
      (Inr (Some (mapMongoId_review (set_review (updates\<lparr>ru_bookId := None\<rparr>) doc))),
       d\<lparr>reviews := updateFirst (\<lambda>r. r_id r = oid) (set_review (updates\<lparr>ru_bookId := None\<rparr>)) (reviews d),
         storageCalls := storageCalls d + 2\<rparr>)"
    unfolding updateReview_def using valid bad
    by (auto simp: v plumbing findOneAndUpdate_def f split: option.splits)
  have m: "updateFirst (\<lambda>r. r_id r = oid) (set_review (updates\<lparr>ru_bookId := None\<rparr>)) (reviews d)
      = map (\<lambda>r. if r_id r = oid then set_review (updates\<lparr>ru_bookId := None\<rparr>) r else r) (reviews d)"
    using updateFirst_by_key[OF ids mem, of "set_review (updates\<lparr>ru_bookId := None\<rparr>)"] k by simp
  have bk: "map r_bookId (map (\<lambda>r. if r_id r = oid then set_review (updates\<lparr>ru_bookId := None\<rparr>) r else r) xs)
      = map r_bookId xs" for xs
    by (induction xs) (auto simp: set_review_def)
  show ?thesis
    by (simp add: u m bk) (simp add: mapMongoId_review_def set_review_def k)
qed

theorem updateReview_bookId_guard_witness:
  "new_ObjectId ''CCCCCCCCCCCCCCCCCCCCCCC1'' = Inr ''ccccccccccccccccccccccc1''
   \<and> distinct (map r_id (reviews reviewDb))
   \<and> findOne (\<lambda>r. r_id r = ''ccccccccccccccccccccccc1'') (reviews reviewDb) = Some reviewA
   \<and> \<not> isValid ''not-a-book-id''
   \<and> map r_title (reviews (snd (updateReview ''CCCCCCCCCCCCCCCCCCCCCCC1''
         (titleUpdate (Some ''not-a-book-id'')) reviewDb))) = [''Changed'']
   \<and> map r_bookId (reviews (snd (updateReview ''CCCCCCCCCCCCCCCCCCCCCCC1''
         (titleUpdate (Some ''not-a-book-id'')) reviewDb))) = [''bbbbbbbbbbbbbbbbbbbbbbb1'']"
proof -
  have h1: "new_ObjectId ''CCCCCCCCCCCCCCCCCCCCCCC1'' = Inr ''ccccccccccccccccccccccc1''"
    by (simp add: id_eval)
  have h2: "distinct (map r_id (reviews reviewDb))" by (simp add: data_eval)
  have h3: "findOne (\<lambda>r. r_id r = ''ccccccccccccccccccccccc1'') (reviews reviewDb) = Some reviewA"
    by (simp add: data_eval findOne_def)
  have h4: "\<not> isValid ''not-a-book-id''" by (simp add: id_eval)
  have h5: "case ru_bookId (titleUpdate (Some ''not-a-book-id'')) of
              None \<Rightarrow> True | Some b \<Rightarrow> \<not> isValid b"
    using h4 by (simp add: titleUpdate_def)
  show ?thesis
    using updateReview_bookId_guard [OF h1 h2 h3 h5] h1 h2 h3 h4
    by (simp add: data_eval set_review_def)
qed

text \<open>
  C4 as stated fails: an update with a malformed \<^verbatim>\<open>bookId\<close> and a new title is not
  rejected, and the title is changed.
\<close>

theorem updateReview_malformed_bookId_counterexample:
  "\<not> isValid ''not-a-book-id''
   \<and> fst (updateReview ''ccccccccccccccccccccccc1'' (titleUpdate (Some ''not-a-book-id'')) reviewDb)
       = Inr (Some \<lparr>rv_id = ''ccccccccccccccccccccccc1'', rv_bookId = ''bbbbbbbbbbbbbbbbbbbbbbb1'',
                    rv_author = ''Ann'', rv_rating = Finite 4, rv_title = ''Changed'',
                    rv_comment = ''Liked it'', rv_timestamp = ''2024-01-03T00:00:00.000Z'',
                    rv_verified = False\<rparr>)
   \<and> map r_title (reviews reviewDb) = [''Good'']
   \<and> map r_title (reviews (snd (updateReview ''ccccccccccccccccccccccc1''
         (titleUpdate (Some ''not-a-book-id'')) reviewDb))) = [''Changed'']"
  by (simp add: updateReview_def id_eval data_eval driver_eval set_review_def
      mapMongoId_review_def)

text \<open>
  C5. For a malformed identifier every accessor that takes one returns its "not found"
  value (null or false, never a throw) and leaves the database exactly as it was, the
  count of storage calls included: no storage access is made.
\<close>

theorem malformed_id_short_circuits:
  assumes bad: "\<not> isValid s"
  shows "getBookById s d = (Inr None, d) \<and> updateBook s bu d = (Inr None, d)
       \<and> deleteBook s d = (Inr False, d)
       \<and> getReviewById s d = (Inr None, d) \<and> updateReview s ru d = (Inr None, d)
       \<and> deleteReview s d = (Inr False, d) \<and> getReviewsByBookId s d = (Inr None, d)
       \<and> updateCartItemQuantity s q d = (Inr None, d) \<and> removeCartItem s d = (Inr False, d)"
  using bad
  by (simp add: getBookById_def updateBook_def deleteBook_def getReviewById_def
      updateReview_def deleteReview_def getReviewsByBookId_def updateCartItemQuantity_def
      removeCartItem_def)

theorem malformed_id_short_circuits_witness:
  "\<not> isValid ''not-an-id''
   \<and> getBookById ''not-an-id'' cartDb = (Inr None, cartDb)
   \<and> updateBook ''not-an-id'' noBookUpdates cartDb = (Inr None, cartDb)
   \<and> deleteBook ''not-an-id'' cartDb = (Inr False, cartDb)
   \<and> getReviewById ''not-an-id'' cartDb = (Inr None, cartDb)
   \<and> updateReview ''not-an-id'' (titleUpdate None) cartDb = (Inr None, cartDb)
   \<and> deleteReview ''not-an-id'' cartDb = (Inr False, cartDb)
   \<and> getReviewsByBookId ''not-an-id'' cartDb = (Inr None, cartDb)
   \<and> updateCartItemQuantity ''not-an-id'' (Finite 3) cartDb = (Inr None, cartDb)
   \<and> removeCartItem ''not-an-id'' cartDb = (Inr False, cartDb)"
proof -
  have h: "\<not> isValid ''not-an-id''" by (simp add: id_eval)
  show ?thesis
    using malformed_id_short_circuits [OF h, of cartDb noBookUpdates "titleUpdate None" "Finite 3"] h
    by simp
qed

text \<open>
  C6. For a well-formed cart line identifier with identifier value \<open>oid\<close>: with a
  quantity \<open>q \<le> 0\<close>, \<open>updateCartItemQuantity\<close> returns null and leaves the database
  as \<open>removeCartItem\<close> leaves it, and the line is then not in the result of \<open>getCart\<close>;
  with \<open>q > 0\<close> and a line with that identifier, that line's quantity becomes \<open>q\<close>
  (whatever it was), every other line is unchanged and the updated line is returned; with
  \<open>q > 0\<close> and no such line, null is returned and the cart is unchanged. The stored
  identifiers of the cart are distinct where a line is singled out by its identifier. The
  second branch is stated for every \<open>q\<close> for which \<^verbatim>\<open>q <= 0\<close> is false, which is every
  \<open>q > 0\<close> (and NaN, which the source treats the same way).
\<close>

theorem updateCartItemQuantity_cases:
  assumes v: "new_ObjectId cartItemId = Inr oid"
  shows "(jsLe q (Finite 0) \<longrightarrow>
            updateCartItemQuantity cartItemId q d = (Inr None, snd (removeCartItem cartItemId d)))
       \<and> (jsLe q (Finite 0) \<and> distinct (map c_id (cart d)) \<longrightarrow>
            toHexString oid \<notin> set (map ci_id (fst (getCart (snd (updateCartItemQuantity cartItemId q d))))))
       \<and> (\<not> jsLe q (Finite 0) \<and> distinct (map c_id (cart d))
            \<and> findOne (\<lambda>c. c_id c = oid) (cart d) = Some line \<longrightarrow>
            fst (updateCartItemQuantity cartItemId q d)
              = Inr (Some (mapMongoId_cart (line\<lparr>c_quantity := q\<rparr>)))
            \<and> cart (snd (updateCartItemQuantity cartItemId q d))
              = map (\<lambda>c. if c_id c = oid then c\<lparr>c_quantity := q\<rparr> else c) (cart d))
       \<and> (\<not> jsLe q (Finite 0) \<and> findOne (\<lambda>c. c_id c = oid) (cart d) = None \<longrightarrow>
            fst (updateCartItemQuantity cartItemId q d) = Inr None
            \<and> cart (snd (updateCartItemQuantity cartItemId q d)) = cart d)"
proof -
  have valid: "isValid cartItemId" using v new_ObjectId_InrD by blast
  have rm: "jsLe q (Finite 0) \<Longrightarrow>
      updateCartItemQuantity cartItemId q d = (Inr None, snd (removeCartItem cartItemId d))"
    unfolding updateCartItemQuantity_def using valid
    by (simp add: removeCartItem_valid[OF v])
  have gone: "jsLe q (Finite 0) \<Longrightarrow> distinct (map c_id (cart d)) \<Longrightarrow>
      toHexString oid \<notin> set (map ci_id (fst (getCart (snd (updateCartItemQuantity cartItemId q d)))))"
    using removeFirst_by_key_gone[of c_id "cart d" oid]
    by (simp add: rm removeCartItem_valid[OF v] ids_getCart toHexString_def)
  have upd: "\<not> jsLe q (Finite 0) \<Longrightarrow>
      updateCartItemQuantity cartItemId q d =
        (Inr (map_option mapMongoId_cart
               (map_option (\<lambda>c. c\<lparr>c_quantity := q\<rparr>) (findOne (\<lambda>c. c_id c = oid) (cart d)))),
         d\<lparr>cart := updateFirst (\<lambda>c. c_id c = oid) (\<lambda>c. c\<lparr>c_quantity := q\<rparr>) (cart d),
           storageCalls := storageCalls d + 2\<rparr>)"
    unfolding updateCartItemQuantity_def using valid
    by (simp add: v plumbing findOneAndUpdate_def)
  have some: "\<not> jsLe q (Finite 0) \<Longrightarrow> distinct (map c_id (cart d)) \<Longrightarrow>
      findOne (\<lambda>c. c_id c = oid) (cart d) = Some line \<Longrightarrow>
      fst (updateCartItemQuantity cartItemId q d)
        = Inr (Some (mapMongoId_cart (line\<lparr>c_quantity := q\<rparr>)))
      \<and> cart (snd (updateCartItemQuantity cartItemId q d))
        = map (\<lambda>c. if c_id c = oid then c\<lparr>c_quantity := q\<rparr> else c) (cart d)"
  proof -
    assume q: "\<not> jsLe q (Finite 0)" and ids: "distinct (map c_id (cart d))"
      and f: "findOne (\<lambda>c. c_id c = oid) (cart d) = Some line"
    have mem: "line \<in> set (cart d)" and k: "c_id line = oid"
      using findOne_SomeD[OF f] by simp_all
    show ?thesis
      using updateFirst_by_key[OF ids mem, of "\<lambda>c. c\<lparr>c_quantity := q\<rparr>"]
      by (simp add: upd[OF q] f k)
  qed
  have none: "\<not> jsLe q (Finite 0) \<Longrightarrow> findOne (\<lambda>c. c_id c = oid) (cart d) = None \<Longrightarrow>
      fst (updateCartItemQuantity cartItemId q d) = Inr None
      \<and> cart (snd (updateCartItemQuantity cartItemId q d)) = cart d"
    by (simp add: upd updateFirst_none)
  show ?thesis using rm gone some none by blast
qed

theorem updateCartItemQuantity_cases_witness:
  "new_ObjectId ''AAAAAAAAAAAAAAAAAAAAAAA1'' = Inr ''aaaaaaaaaaaaaaaaaaaaaaa1''
   \<and> distinct (map c_id (cart cartDb))
   \<and> findOne (\<lambda>c. c_id c = ''aaaaaaaaaaaaaaaaaaaaaaa1'') (cart cartDb) = Some lineA
   \<and> updateCartItemQuantity ''AAAAAAAAAAAAAAAAAAAAAAA1'' (Finite 0) cartDb
       = (Inr None, snd (removeCartItem ''AAAAAAAAAAAAAAAAAAAAAAA1'' cartDb))
   \<and> ''aaaaaaaaaaaaaaaaaaaaaaa1'' \<notin> set (map ci_id (fst (getCart
         (snd (updateCartItemQuantity ''AAAAAAAAAAAAAAAAAAAAAAA1'' (Finite 0) cartDb)))))
   \<and> fst (updateCartItemQuantity ''AAAAAAAAAAAAAAAAAAAAAAA1'' (Finite 7) cartDb)
       = Inr (Some (mapMongoId_cart (lineA\<lparr>c_quantity := Finite 7\<rparr>)))
   \<and> cart (snd (updateCartItemQuantity ''AAAAAAAAAAAAAAAAAAAAAAA1'' (Finite 7) cartDb))
       = [lineA\<lparr>c_quantity := Finite 7\<rparr>, lineB]"
proof -
  have h1: "new_ObjectId ''AAAAAAAAAAAAAAAAAAAAAAA1'' = Inr ''aaaaaaaaaaaaaaaaaaaaaaa1''"
    by (simp add: id_eval)
  have h2: "distinct (map c_id (cart cartDb))" by (simp add: data_eval)
  have h3: "findOne (\<lambda>c. c_id c = ''aaaaaaaaaaaaaaaaaaaaaaa1'') (cart cartDb) = Some lineA"
    by (simp add: data_eval findOne_def)
  have z: "jsLe (Finite 0) (Finite 0)" and p: "\<not> jsLe (Finite 7) (Finite 0)" by simp_all
  note t0 = updateCartItemQuantity_cases [OF h1, of "Finite 0" cartDb lineA]
  note t7 = updateCartItemQuantity_cases [OF h1, of "Finite 7" cartDb lineA]
  have a: "updateCartItemQuantity ''AAAAAAAAAAAAAAAAAAAAAAA1'' (Finite 0) cartDb
       = (Inr None, snd (removeCartItem ''AAAAAAAAAAAAAAAAAAAAAAA1'' cartDb))"
    using t0 z by blast
  have b: "''aaaaaaaaaaaaaaaaaaaaaaa1'' \<notin> set (map ci_id (fst (getCart
         (snd (updateCartItemQuantity ''AAAAAAAAAAAAAAAAAAAAAAA1'' (Finite 0) cartDb)))))"
    using t0 z h2 unfolding toHexString_def by blast
  have c: "fst (updateCartItemQuantity ''AAAAAAAAAAAAAAAAAAAAAAA1'' (Finite 7) cartDb)
       = Inr (Some (mapMongoId_cart (lineA\<lparr>c_quantity := Finite 7\<rparr>)))
     \<and> cart (snd (updateCartItemQuantity ''AAAAAAAAAAAAAAAAAAAAAAA1'' (Finite 7) cartDb))
       = map (\<lambda>c. if c_id c = ''aaaaaaaaaaaaaaaaaaaaaaa1'' then c\<lparr>c_quantity := Finite 7\<rparr> else c)
           (cart cartDb)"
    using t7 p h2 h3 by blast
  have m: "map (\<lambda>c. if c_id c = ''aaaaaaaaaaaaaaaaaaaaaaa1'' then c\<lparr>c_quantity := Finite 7\<rparr> else c)
           (cart cartDb) = [lineA\<lparr>c_quantity := Finite 7\<rparr>, lineB]"
    by (simp add: data_eval)
  show ?thesis using a b c h1 h2 h3 unfolding m by blast
qed

text \<open>
  C7. \<open>removeCartItem\<close> never throws on any input string. It returns true only when
  the cart has lost one line and false only when the cart is unchanged; a malformed
  identifier and a well-formed identifier that matches no line both return false with the
  cart unchanged.
\<close>

theorem removeCartItem_total:
  "(case fst (removeCartItem s d) of
      Inl e \<Rightarrow> False
    | Inr r \<Rightarrow>
        (r \<longrightarrow> length (cart (snd (removeCartItem s d))) + 1 = length (cart d))
        \<and> (\<not> r \<longrightarrow> cart (snd (removeCartItem s d)) = cart d))
   \<and> (\<not> isValid s \<longrightarrow> removeCartItem s d = (Inr False, d))
   \<and> (isValid s \<and> findOne (\<lambda>c. c_id c = map toLowerHex s) (cart d) = None \<longrightarrow>
        fst (removeCartItem s d) = Inr False \<and> cart (snd (removeCartItem s d)) = cart d)"
proof (cases "isValid s")
  case False
  then show ?thesis by (simp add: removeCartItem_invalid)
next
  case True
  then have v: "new_ObjectId s = Inr (map toLowerHex s)" by (rule isValid_new_ObjectId)
  show ?thesis
    using True length_removeFirst[of "\<lambda>c. c_id c = map toLowerHex s" "cart d"]
    by (auto simp: removeCartItem_valid[OF v] removeFirst_none split: if_splits)
qed

theorem removeCartItem_total_witness:
  "\<not> isValid ''not-an-id''
   \<and> removeCartItem ''not-an-id'' cartDb = (Inr False, cartDb)
   \<and> isValid ''aaaaaaaaaaaaaaaaaaaaaaa9''
   \<and> findOne (\<lambda>c. c_id c = map toLowerHex ''aaaaaaaaaaaaaaaaaaaaaaa9'') (cart cartDb) = None
   \<and> fst (removeCartItem ''aaaaaaaaaaaaaaaaaaaaaaa9'' cartDb) = Inr False
   \<and> cart (snd (removeCartItem ''aaaaaaaaaaaaaaaaaaaaaaa9'' cartDb)) = cart cartDb
   \<and> fst (removeCartItem ''AAAAAAAAAAAAAAAAAAAAAAA1'' cartDb) = Inr True
   \<and> length (cart (snd (removeCartItem ''AAAAAAAAAAAAAAAAAAAAAAA1'' cartDb))) + 1
       = length (cart cartDb)"
proof -
  have h1: "\<not> isValid ''not-an-id''" by (simp add: id_eval)
  have h2: "isValid ''aaaaaaaaaaaaaaaaaaaaaaa9''" by (simp add: id_eval)
  have h3: "findOne (\<lambda>c. c_id c = map toLowerHex ''aaaaaaaaaaaaaaaaaaaaaaa9'') (cart cartDb) = None"
    by (simp add: id_eval data_eval findOne_def)
  have h4: "fst (removeCartItem ''AAAAAAAAAAAAAAAAAAAAAAA1'' cartDb) = Inr True"
    by (simp add: removeCartItem_def id_eval data_eval driver_eval)
  show ?thesis
    using removeCartItem_total [of "''not-an-id''" cartDb]
      removeCartItem_total [of "''aaaaaaaaaaaaaaaaaaaaaaa9''" cartDb]
      removeCartItem_total [of "''AAAAAAAAAAAAAAAAAAAAAAA1''" cartDb] h1 h2 h3 h4
    by simp
qed

text \<open>
  C8. For a review whose book identifier is valid (and a generated identifier that is not
  yet stored), \<open>createReview\<close> stores exactly one new review whose timestamp is the
  server's clock reading \<open>now\<close>, whatever timestamp the caller supplied, and whose
  verified flag is false when the caller omitted it and the caller's value otherwise; the
  returned review has the same two values. The same holds through \<^verbatim>\<open>POST /api/reviews\<close>
  for a body with all required fields: the stored timestamp is the service's clock reading
  (not the body's, and not the route's own reading), and the stored flag is false for an
  omitted flag and the body's value otherwise.
\<close>

theorem createReview_server_fields:
  assumes b: "new_ObjectId (rd_bookId reviewData) = Inr bo"
    and fresh: "newId \<notin> set (map r_id (reviews d))"
  shows "reviews (snd (createReview newId now reviewData d))
           = reviews d @
             [\<lparr>r_id = newId, r_bookId = bo, r_author = rd_author reviewData,
               r_rating = rd_rating reviewData, r_title = rd_title reviewData,
               r_comment = rd_comment reviewData, r_timestamp = now,
               r_verified = (case rd_verified reviewData of None \<Rightarrow> False | Some v \<Rightarrow> v)\<rparr>]
       \<and> (case fst (createReview newId now reviewData d) of
            Inl e \<Rightarrow> False
          | Inr review \<Rightarrow>
              rv_timestamp review = now
              \<and> rv_verified review
                  = (case rd_verified reviewData of None \<Rightarrow> False | Some v \<Rightarrow> v))
       \<and> (rp_bookId body = Some (rd_bookId reviewData) \<and> rp_author body = Some a
            \<and> rp_rating body = Some r \<and> rp_title body = Some t \<and> rp_comment body = Some c \<longrightarrow>
            status (fst (POST_reviews newId routeNow now body d)) = 201
            \<and> map r_timestamp (reviews (snd (POST_reviews newId routeNow now body d)))
                = map r_timestamp (reviews d) @ [now]
            \<and> map r_verified (reviews (snd (POST_reviews newId routeNow now body d)))
                = map r_verified (reviews d)
                  @ [case rp_verified body of None \<Rightarrow> False | Some v \<Rightarrow> v])"
proof -
  note c = createReview_stores[OF b fresh, of now]
  have svc: "reviews (snd (createReview newId now reviewData d))
           = reviews d @
             [\<lparr>r_id = newId, r_bookId = bo, r_author = rd_author reviewData,
               r_rating = rd_rating reviewData, r_title = rd_title reviewData,
               r_comment = rd_comment reviewData, r_timestamp = now,
               r_verified = (case rd_verified reviewData of None \<Rightarrow> False | Some v \<Rightarrow> v)\<rparr>]
       \<and> (case fst (createReview newId now reviewData d) of
            Inl e \<Rightarrow> False
          | Inr review \<Rightarrow>
              rv_timestamp review = now
              \<and> rv_verified review
                  = (case rd_verified reviewData of None \<Rightarrow> False | Some v \<Rightarrow> v))"
    by (simp add: c) (simp add: mapMongoId_review_def)
  have route: "status (fst (POST_reviews newId routeNow now body d)) = 201
            \<and> map r_timestamp (reviews (snd (POST_reviews newId routeNow now body d)))
                = map r_timestamp (reviews d) @ [now]
            \<and> map r_verified (reviews (snd (POST_reviews newId routeNow now body d)))
                = map r_verified (reviews d)
                  @ [case rp_verified body of None \<Rightarrow> False | Some v \<Rightarrow> v]"
    if req: "rp_bookId body = Some (rd_bookId reviewData)" "rp_author body = Some a"
       "rp_rating body = Some r" "rp_title body = Some t" "rp_comment body = Some c"
  proof -
    let ?rd = "\<lparr>rd_bookId = rd_bookId reviewData, rd_author = a, rd_rating = r, rd_title = t,
                rd_comment = c, rd_timestamp = Some routeNow,
                rd_verified = Some (case rp_verified body of None \<Rightarrow> False | Some v \<Rightarrow> v)\<rparr>"
    have b': "new_ObjectId (rd_bookId ?rd) = Inr bo" using b by simp
    show ?thesis
      unfolding POST_reviews_def
      by (simp add: req createReview_stores[OF b' fresh, of now])
  qed
  show ?thesis using svc route by blast
qed

theorem createReview_server_fields_witness:
  "new_ObjectId (rd_bookId reviewDataA) = Inr ''bbbbbbbbbbbbbbbbbbbbbbb1''
   \<and> ''ccccccccccccccccccccccc2'' \<notin> set (map r_id (reviews reviewDb))
   \<and> rd_timestamp reviewDataA = Some ''1999-12-31T00:00:00.000Z''
   \<and> rd_verified reviewDataA = None
   \<and> map r_timestamp (reviews (snd (createReview ''ccccccccccccccccccccccc2''
         ''2024-02-02T00:00:00.000Z'' reviewDataA reviewDb)))
       = [''2024-01-03T00:00:00.000Z'', ''2024-02-02T00:00:00.000Z'']
   \<and> map r_verified (reviews (snd (createReview ''ccccccccccccccccccccccc2''
         ''2024-02-02T00:00:00.000Z'' reviewDataA reviewDb)))
       = [False, False]
   \<and> rp_bookId reviewBodyA = Some (rd_bookId reviewDataA)
   \<and> map r_timestamp (reviews (snd (POST_reviews ''ccccccccccccccccccccccc2''
         ''2024-02-02T00:00:00.000Z'' ''2024-02-02T00:00:00.001Z'' reviewBodyA reviewDb)))
       = [''2024-01-03T00:00:00.000Z'', ''2024-02-02T00:00:00.001Z'']
   \<and> map r_verified (reviews (snd (POST_reviews ''ccccccccccccccccccccccc2''
         ''2024-02-02T00:00:00.000Z'' ''2024-02-02T00:00:00.001Z'' reviewBodyA reviewDb)))
       = [False, True]"
proof -
  have h1: "new_ObjectId (rd_bookId reviewDataA) = Inr ''bbbbbbbbbbbbbbbbbbbbbbb1''"
    by (simp add: reviewDataA_def id_eval)
  have h2: "''ccccccccccccccccccccccc2'' \<notin> set (map r_id (reviews reviewDb))"
    by (simp add: data_eval)
  have h3: "rp_bookId reviewBodyA = Some (rd_bookId reviewDataA) \<and> rp_author reviewBodyA = Some ''Bob''
      \<and> rp_rating reviewBodyA = Some (Finite 5) \<and> rp_title reviewBodyA = Some ''Great''
      \<and> rp_comment reviewBodyA = Some ''Loved it''"
    by (simp add: reviewBodyA_def reviewDataA_def)
  have h4: "rp_verified reviewBodyA = Some True" by (simp add: reviewBodyA_def)
  have h5: "rd_timestamp reviewDataA = Some ''1999-12-31T00:00:00.000Z'' \<and> rd_verified reviewDataA = None"
    by (simp add: reviewDataA_def)
  have r: "map r_timestamp (reviews reviewDb) = [''2024-01-03T00:00:00.000Z'']
      \<and> map r_verified (reviews reviewDb) = [False]"
    by (simp add: data_eval)
  show ?thesis
    using createReview_server_fields [OF h1 h2, of "''2024-02-02T00:00:00.000Z''"
        reviewBodyA "''Bob''" "Finite 5" "''Great''" "''Loved it''"
        "''2024-02-02T00:00:00.000Z''" ]
      createReview_server_fields [OF h1 h2, of "''2024-02-02T00:00:00.001Z''"
        reviewBodyA "''Bob''" "Finite 5" "''Great''" "''Loved it''"
        "''2024-02-02T00:00:00.000Z''" ]
      h1 h2 h3 h4 h5 r
    by simp
qed

text \<open>
  C9. For every complete book input and a generated identifier that is well-formed and not
  yet stored, \<open>createBook\<close> returns a book that is the input together with the assigned
  identifier, and \<open>getBookById\<close> of the returned identifier on the resulting database
  returns that same book.
\<close>

theorem createBook_getBookById_roundtrip:
  assumes wf: "wfObjectId newId"
    and fresh: "newId \<notin> set (map b_id (books d))"
  shows "case fst (createBook newId bookData d) of
           Inl e \<Rightarrow> False
         | Inr book \<Rightarrow>
             book = \<lparr>bk_id = toHexString newId, bk_rest = bookData\<rparr>
             \<and> fst (getBookById (bk_id book) (snd (createBook newId bookData d)))
                 = Inr (Some book)"
proof -
  let ?doc = "\<lparr>b_id = newId, b_rest = bookData\<rparr>"
  have f: "findOne (\<lambda>b. b_id b = newId) (books d @ [?doc]) = Some ?doc"
    using fresh by (subst findOne_snoc) (auto simp: findOne_None)
  have c: "createBook newId bookData d =
      (Inr (mapMongoId_book ?doc), d\<lparr>books := books d @ [?doc], storageCalls := storageCalls d + 3\<rparr>)"
    unfolding createBook_def using fresh by (simp add: plumbing insertOne_def f)
  have v: "isValid (toHexString newId)"
    using wfObjectId_roundtrip[OF wf] new_ObjectId_InrD by blast
  have g: "fst (getBookById (toHexString newId)
               (d\<lparr>books := books d @ [?doc], storageCalls := storageCalls d + 3\<rparr>))
      = Inr (Some (mapMongoId_book ?doc))"
    unfolding getBookById_def using v
    by (simp add: wfObjectId_roundtrip[OF wf] plumbing f)
  show ?thesis using g by (simp add: c mapMongoId_book_def)
qed

theorem createBook_getBookById_roundtrip_witness:
  "wfObjectId ''ddddddddddddddddddddddd1''
   \<and> ''ddddddddddddddddddddddd1'' \<notin> set (map b_id (books emptyDb))
   \<and> fst (createBook ''ddddddddddddddddddddddd1'' bookDataA emptyDb)
       = Inr \<lparr>bk_id = ''ddddddddddddddddddddddd1'', bk_rest = bookDataA\<rparr>
   \<and> fst (getBookById ''ddddddddddddddddddddddd1''
            (snd (createBook ''ddddddddddddddddddddddd1'' bookDataA emptyDb)))
       = Inr (Some \<lparr>bk_id = ''ddddddddddddddddddddddd1'', bk_rest = bookDataA\<rparr>)"
proof -
  have h1: "wfObjectId ''ddddddddddddddddddddddd1''" by (simp add: id_eval)
  have h2: "''ddddddddddddddddddddddd1'' \<notin> set (map b_id (books emptyDb))"
    by (simp add: data_eval)
  show ?thesis
    using createBook_getBookById_roundtrip [OF h1 h2, of bookDataA] h1 h2
    by (auto simp: toHexString_def split: sum.splits)
qed

text \<open>
  C10. When a line for the book already exists, \<open>addCartItem\<close> changes only the
  quantity of that line: the identifiers, book references and added-at timestamps of all
  lines are as before, no line is added, and every other line is unchanged. When no line
  exists (and the generated identifier is not yet stored) one line is appended, with the
  timestamp \<open>now\<close>. The books and the reviews are untouched either way. The stored
  identifiers of the cart are distinct.
\<close>

theorem addCartItem_merge_frame:
  assumes b: "new_ObjectId (bookId item) = Inr bo"
    and ids: "distinct (map c_id (cart d))"
  shows "(findOne (\<lambda>c. c_bookId c = bo) (cart d) = Some ex \<longrightarrow>
            cart (snd (addCartItem newId now item d))
              = map (\<lambda>c. if c_id c = c_id ex
                          then c\<lparr>c_quantity := jsAdd (c_quantity ex) (quantity item)\<rparr> else c) (cart d)
          \<and> map c_id (cart (snd (addCartItem newId now item d))) = map c_id (cart d)
          \<and> map c_bookId (cart (snd (addCartItem newId now item d))) = map c_bookId (cart d)
          \<and> map c_addedAt (cart (snd (addCartItem newId now item d))) = map c_addedAt (cart d))
       \<and> (findOne (\<lambda>c. c_bookId c = bo) (cart d) = None \<and> newId \<notin> set (map c_id (cart d)) \<longrightarrow>
            cart (snd (addCartItem newId now item d))
              = cart d @ [\<lparr>c_id = newId, c_bookId = bo, c_quantity = quantity item,
                           c_addedAt = now\<rparr>])
       \<and> books (snd (addCartItem newId now item d)) = books d
       \<and> reviews (snd (addCartItem newId now item d)) = reviews d"
proof -
  have m: "findOne (\<lambda>c. c_bookId c = bo) (cart d) = Some ex \<Longrightarrow>
      cart (snd (addCartItem newId now item d))
        = setQuantity (c_id ex) (jsAdd (c_quantity ex) (quantity item)) (cart d)"
    using addCartItem_merge[OF b _ ids, of ex newId now] by simp
  have i: "findOne (\<lambda>c. c_bookId c = bo) (cart d) = None \<Longrightarrow> newId \<notin> set (map c_id (cart d)) \<Longrightarrow>
      cart (snd (addCartItem newId now item d))
        = cart d @ [\<lparr>c_id = newId, c_bookId = bo, c_quantity = quantity item, c_addedAt = now\<rparr>]"
    using addCartItem_insert[OF b, of d newId now] by simp
  have o: "books (snd (addCartItem newId now item d)) = books d
       \<and> reviews (snd (addCartItem newId now item d)) = reviews d"
    unfolding addCartItem_def
    by (auto simp: plumbing findOneAndUpdate_def insertOne_def
        split: sum.splits option.splits prod.splits if_splits)
  show ?thesis
    using m i o setQuantity_frame[of "c_id ex" "jsAdd (c_quantity ex) (quantity item)" "cart d"]
    by (auto simp: setQuantity_def)
qed

theorem addCartItem_merge_frame_witness:
  "new_ObjectId ''BBBBBBBBBBBBBBBBBBBBBBB2'' = Inr ''bbbbbbbbbbbbbbbbbbbbbbb2''
   \<and> distinct (map c_id (cart cartDb))
   \<and> findOne (\<lambda>c. c_bookId c = ''bbbbbbbbbbbbbbbbbbbbbbb2'') (cart cartDb) = Some lineB
   \<and> cart (snd (addCartItem ''aaaaaaaaaaaaaaaaaaaaaaa3'' ''t1''
         \<lparr>bookId = ''BBBBBBBBBBBBBBBBBBBBBBB2'', quantity = Finite 2\<rparr> cartDb))
       = [lineA, lineB\<lparr>c_quantity := Finite 3\<rparr>]"
proof -
  have h1: "new_ObjectId (bookId \<lparr>bookId = ''BBBBBBBBBBBBBBBBBBBBBBB2'', quantity = Finite 2\<rparr>)
      = Inr ''bbbbbbbbbbbbbbbbbbbbbbb2''"
    by (simp add: id_eval)
  have h2: "distinct (map c_id (cart cartDb))" by (simp add: data_eval)
  have h3: "findOne (\<lambda>c. c_bookId c = ''bbbbbbbbbbbbbbbbbbbbbbb2'') (cart cartDb) = Some lineB"
    by (simp add: data_eval findOne_def)
  have r: "roundToDouble 3 = Finite 3" using roundToDouble_of_int[of 3] by simp
  show ?thesis
    using addCartItem_merge_frame [OF h1 h2, of lineB "''aaaaaaaaaaaaaaaaaaaaaaa3''" "''t1''"]
      h1 h2 h3
    by (simp add: data_eval r)
qed

end
